theory Spec2Isabelle
  imports Main "HOL-Library.Word"
begin

section \<open>Splunk HEC receiver: the request handler of receiver.go\<close>

text \<open>
  The handler \<open>handleReq\<close> of \<open>receiver/splunkhecreceiver/receiver.go\<close> talks to the
  response writer, the tracing span, the logger, the JSON decoder and the downstream
  consumer. The model returns the ordered list of these calls (the handler's effects);
  what a client or a collaborator observes is read off that list.
\<close>

subsection \<open>Constants\<close>

type_synonym error = string

definition MethodPost :: string where "MethodPost = ''POST''"
definition StatusOK :: int where "StatusOK = 200"
definition StatusAccepted :: int where "StatusAccepted = 202"
definition StatusBadRequest :: int where "StatusBadRequest = 400"
definition StatusUnsupportedMediaType :: int where "StatusUnsupportedMediaType = 415"
definition StatusInternalServerError :: int where "StatusInternalServerError = 500"

definition responseOK :: string where
  "responseOK = ''OK''"
definition responseInvalidMethod :: string where
  "responseInvalidMethod = ''Only '' @ [CHR 0x22] @ ''POST'' @ [CHR 0x22] @ '' method is supported''"
definition responseInvalidContentType :: string where
  "responseInvalidContentType =
     [CHR 0x22] @ ''Content-Type'' @ [CHR 0x22] @ '' must be '' @ [CHR 0x22] @ ''application/json'' @ [CHR 0x22]"
definition responseInvalidEncoding :: string where
  "responseInvalidEncoding =
     [CHR 0x22] @ ''Content-Encoding'' @ [CHR 0x22] @ '' must be '' @ [CHR 0x22] @ ''gzip'' @ [CHR 0x22] @ '' or empty''"
definition responseErrGzipReader :: string where
  "responseErrGzipReader = ''Error on gzip body''"
definition responseErrUnmarshalBody :: string where
  "responseErrUnmarshalBody = ''Failed to unmarshal message body''"
definition responseErrNextConsumer :: string where
  "responseErrNextConsumer = ''Internal Server Error''"
definition responseErrUnsupportedMetricEvent :: string where
  "responseErrUnsupportedMetricEvent = ''Unsupported metric event''"

definition jsonContentType :: string where "jsonContentType = ''application/json''"
definition gzipEncoding :: string where "gzipEncoding = ''gzip''"
definition httpContentTypeHeader :: string where "httpContentTypeHeader = ''Content-Type''"
definition httpContentEncodingHeader :: string where "httpContentEncodingHeader = ''Content-Encoding''"

text \<open>
  \<open>initJSONResponse s\<close> is \<open>json.Marshal(s)\<close> on a Go string: the text between double
  quotes, with the double quote and the backslash escaped by a backslash. The other
  escapes of \<open>json.Marshal\<close> (control characters, the HTML characters, invalid UTF-8)
  concern characters that none of the response constants contains. Marshalling a string
  does not fail, so the \<open>panic\<close> branch of the source is dead.
\<close>

definition jsonEscape :: "char \<Rightarrow> string" where
  "jsonEscape c = (if c = CHR 0x22 \<or> c = CHR 0x5C then [CHR 0x5C, c] else [c])"

definition initJSONResponse :: "string \<Rightarrow> string" where
  "initJSONResponse s = [CHR 0x22] @ concat (map jsonEscape s) @ [CHR 0x22]"

definition okRespBody :: string where
  "okRespBody = initJSONResponse responseOK"
definition invalidMethodRespBody :: string where
  "invalidMethodRespBody = initJSONResponse responseInvalidMethod"
definition invalidContentRespBody :: string where
  "invalidContentRespBody = initJSONResponse responseInvalidContentType"
definition invalidEncodingRespBody :: string where
  "invalidEncodingRespBody = initJSONResponse responseInvalidEncoding"
definition errGzipReaderRespBody :: string where
  "errGzipReaderRespBody = initJSONResponse responseErrGzipReader"
definition errUnmarshalBodyRespBody :: string where
  "errUnmarshalBodyRespBody = initJSONResponse responseErrUnmarshalBody"
definition errNextConsumerRespBody :: string where
  "errNextConsumerRespBody = initJSONResponse responseErrNextConsumer"
definition errUnsupportedMetricEvent :: string where
  "errUnsupportedMetricEvent = initJSONResponse responseErrUnsupportedMetricEvent"

subsection \<open>Data\<close>

text \<open>
  \<open>pdata.Logs\<close> as the handler builds it: a slice of resource logs, each with a resource
  (nil until \<open>InitEmpty\<close>, then a list of string attributes) and a slice of
  instrumentation library logs, each holding the log records. The log record type \<open>'l\<close>
  is that of \<open>pdata.LogRecord\<close>.
\<close>

record 'l InstrumentationLibraryLogs =
  Logs :: "'l list"

record 'l ResourceLogs =
  Resource :: "(string \<times> string) list option"
  InstrumentationLibraryLogs :: "'l InstrumentationLibraryLogs list"

type_synonym 'l Logs = "'l ResourceLogs list"

text \<open>
  The status codes of \<open>go.opencensus.io/trace\<close> that a span of the handler can carry:
  OK until another one is set, unknown (what \<open>obsreport\<close> gives to an error), and the
  two that \<open>failRequest\<close> uses.
\<close>

datatype StatusCode =
    StatusCodeOK | StatusCodeUnknown | StatusCodeInvalidArgument | StatusCodeInternal

text \<open>
  What one test \<open>dec.More()\<close> of the loop meets in the body. Either \<open>dec.More()\<close>
  holds and \<open>dec.Decode(&msg)\<close> into a \<open>splunk.Event\<close> (type \<open>'e\<close>; the struct is
  declared in \<open>internal/common/splunk\<close>) returns an error or the decoded event. Or
  \<open>dec.More()\<close> is false although the body is not at its end (\<open>NoMore\<close>): by
  \<open>encoding/json\<close> that is so when the next byte that is not blank is a closing bracket
  or brace, and when reading the body fails (a corrupt gzip payload).
\<close>

datatype 'e decoded = DecodeErr error | Decoded 'e | NoMore

text \<open>
  The parts of \<open>*http.Request\<close> that the handler reads. \<open>Header\<close> is \<open>req.Header.Get\<close>
  (the empty string for an absent header). \<open>GzipNewReader\<close> is the error that
  \<open>gzip.NewReader(req.Body)\<close> returns (\<open>None\<close> for nil); the handler calls it only
  when the encoding is gzip. \<open>Body\<close> lists what the successive tests \<open>dec.More()\<close> on
  \<open>bodyReader\<close> meet; at the end of the list the body is at its end, where
  \<open>dec.More()\<close> is false.
\<close>

record 'e Request =
  Method :: string
  Header :: "string \<Rightarrow> string"
  ContentLength :: int
  GzipNewReader :: "error option"
  Body :: "'e decoded list"

text \<open>The fields of \<open>Config\<close> that the handler reads; \<open>TLSSetting\<close> is "not nil".\<close>

record Config =
  Name :: string
  TLSSetting :: bool
  AccessTokenPassthrough :: bool

text \<open>
  What the handler uses and this file does not define: \<open>IsMetric\<close> of \<open>splunk.Event\<close>,
  the translation of one event to a log record (used by \<open>SplunkHecToLogData\<close> below),
  the downstream \<open>ConsumeLogs\<close> (\<open>None\<close> for a nil error), the error that
  \<open>resp.Write\<close> returns for a body, and the constants \<open>splunk.SplunkHECTokenHeader\<close>,
  \<open>splunk.SplunkHecTokenLabel\<close> and \<open>typeStr\<close>.
\<close>

record ('e, 'l) Collaborators =
  IsMetric :: "'e \<Rightarrow> bool"
  toLogRecord :: "'e \<Rightarrow> error + 'l"
  ConsumeLogs :: "'l Logs \<Rightarrow> error option"
  respWrite :: "string \<Rightarrow> error option"
  SplunkHECTokenHeader :: string
  SplunkHecTokenLabel :: string
  typeStr :: string

text \<open>The calls the handler makes, in the order it makes them.\<close>

datatype 'l effect =
    ReceiverContext string string string
  | StartMetricsReceiveOp string string
  | WriteHeader int
  | Write string
  | NewGzipReader
  | DecDecode
  | IsMetricCall
  | ConsumeLogsCall "'l Logs"
  | EndMetricsReceiveOp string nat nat "error option"
  | SpanAddAttributes int string
  | SpanSetStatus StatusCode string
  | SpanEnd
  | LoggerWarn string
  | LoggerDebug int string "error option"

subsection \<open>failRequest\<close>

definition failRequest ::
  "('e, 'l) Collaborators \<Rightarrow> int \<Rightarrow> string \<Rightarrow> error option \<Rightarrow> 'l effect list" where
  "failRequest c httpStatusCode jsonResponse err =
     [WriteHeader httpStatusCode] @
     (if length jsonResponse > 0
      then Write jsonResponse #
           (case respWrite c jsonResponse of
              Some writeErr \<Rightarrow> [LoggerWarn writeErr]
            | None \<Rightarrow> [])
      else []) @
     [SpanAddAttributes httpStatusCode jsonResponse,
      SpanSetStatus
        (if httpStatusCode = StatusInternalServerError
         then StatusCodeInternal else StatusCodeInvalidArgument)
        (case err of Some e \<Rightarrow> e | None \<Rightarrow> []),
      SpanEnd,
      LoggerDebug httpStatusCode jsonResponse err]"

subsection \<open>The decoding loop\<close>

text \<open>
  The loop \<open>for dec.More() { ... }\<close> of \<open>handleReq\<close>, by recursion on what the
  tests \<open>dec.More()\<close> meet: the loop ends where \<open>dec.More()\<close> is false, at the end
  of the body or before. It returns the effects and, unless it failed the request,
  \<open>messagesReceived\<close> and \<open>events\<close>. In the metric branch the source passes the
  \<open>err\<close> of \<open>dec.Decode\<close>, which is nil there. \<open>messagesReceived\<close> is a Go \<open>int\<close>;
  it counts the decoded values of one body and is a \<open>nat\<close> here.
\<close>

fun decodeEvents ::
  "('e, 'l) Collaborators \<Rightarrow> 'e decoded list \<Rightarrow> nat \<Rightarrow> 'e list
     \<Rightarrow> 'l effect list \<times> (nat \<times> 'e list) option" where
  "decodeEvents c [] messagesReceived events = ([], Some (messagesReceived, events))"
| "decodeEvents c (DecodeErr err # rest) messagesReceived events =
     (DecDecode # failRequest c StatusBadRequest errUnmarshalBodyRespBody (Some err), None)"
| "decodeEvents c (Decoded msg # rest) messagesReceived events =
     (if IsMetric c msg
      then (DecDecode # IsMetricCall #
              failRequest c StatusBadRequest errUnsupportedMetricEvent None, None)
      else (case decodeEvents c rest (messagesReceived + 1) (events @ [msg]) of
              (effs, r) \<Rightarrow> (DecDecode # IsMetricCall # effs, r)))"
| "decodeEvents c (NoMore # rest) messagesReceived events =
     ([], Some (messagesReceived, events))"

subsection \<open>SplunkHecToLogData\<close>

text \<open>
  Modelled from the spec: \<open>SplunkHecToLogData\<close> (\<open>splunk_to_logdata.go\<close> is not among the
  sources; \<open>handleReq\<close> calls it and checks its error). The spec gives it as the Batch
  Assembler's step "one log record per input Event Record, in the same order". The
  translation of a single event is the parameter \<open>toLogRecord\<close>; the first event whose
  translation fails gives the error.
\<close>

fun SplunkHecToLogData :: "('e \<Rightarrow> error + 'l) \<Rightarrow> 'e list \<Rightarrow> error + 'l list" where
  "SplunkHecToLogData f [] = Inr []"
| "SplunkHecToLogData f (e # es) =
     (case f e of
        Inl err \<Rightarrow> Inl err
      | Inr l \<Rightarrow>
          (case SplunkHecToLogData f es of
             Inl err \<Rightarrow> Inl err
           | Inr ls \<Rightarrow> Inr (l # ls)))"

subsection \<open>handleReq\<close>

text \<open>
  Lines 226 to 243: a new \<open>pdata.Logs\<close> resized to one resource logs entry with one
  instrumentation library logs entry, the log slice moved into it, and, when the token
  passthrough is configured and the header is not empty, the resource initialised with
  the token as its only attribute.
\<close>

definition assembleLogs ::
  "Config \<Rightarrow> ('e, 'l) Collaborators \<Rightarrow> 'e Request \<Rightarrow> 'l list \<Rightarrow> 'l Logs" where
  "assembleLogs cfg c req logSlice =
     (let rl = \<lparr>Resource = None, InstrumentationLibraryLogs = [\<lparr>Logs = logSlice\<rparr>]\<rparr>;
          accessToken = Header req (SplunkHECTokenHeader c)
      in [if AccessTokenPassthrough cfg \<and> accessToken \<noteq> []
          then rl\<lparr>Resource := Some [(SplunkHecTokenLabel c, accessToken)]\<rparr>
          else rl])"

text \<open>Lines 220 to 257: what follows the loop when it did not fail the request.\<close>

definition consumeEvents ::
  "Config \<Rightarrow> ('e, 'l) Collaborators \<Rightarrow> 'e Request \<Rightarrow> nat \<Rightarrow> 'e list \<Rightarrow> 'l effect list" where
  "consumeEvents cfg c req messagesReceived events =
     (case SplunkHecToLogData (toLogRecord c) events of
        Inl err \<Rightarrow> failRequest c StatusBadRequest errUnmarshalBodyRespBody (Some err)
      | Inr logSlice \<Rightarrow>
          (let ld = assembleLogs cfg c req logSlice;
               decodeErr = ConsumeLogs c ld
           in [ConsumeLogsCall ld,
               EndMetricsReceiveOp (typeStr c) messagesReceived messagesReceived decodeErr] @
              (case decodeErr of
                 Some e \<Rightarrow>
                   failRequest c StatusInternalServerError errNextConsumerRespBody (Some e)
               | None \<Rightarrow> [WriteHeader StatusAccepted, Write okRespBody])))"

text \<open>Lines 182 to 218: the gzip reader, the zero length test and the loop.\<close>

definition readBody ::
  "Config \<Rightarrow> ('e, 'l) Collaborators \<Rightarrow> 'e Request \<Rightarrow> string \<Rightarrow> 'l effect list" where
  "readBody cfg c req encoding =
     (let gz = (if encoding = gzipEncoding then [NewGzipReader] else []);
          gzErr = (if encoding = gzipEncoding then GzipNewReader req else None)
      in gz @
         (case gzErr of
            Some err \<Rightarrow> failRequest c StatusBadRequest errGzipReaderRespBody (Some err)
          | None \<Rightarrow>
              if ContentLength req = 0 then [Write okRespBody]
              else (case decodeEvents c (Body req) 0 [] of
                      (effs, None) \<Rightarrow> effs
                    | (effs, Some (messagesReceived, events)) \<Rightarrow>
                        effs @ consumeEvents cfg c req messagesReceived events)))"

definition handleReq ::
  "Config \<Rightarrow> ('e, 'l) Collaborators \<Rightarrow> 'e Request \<Rightarrow> 'l effect list" where
  "handleReq cfg c req =
     (let transport = (if TLSSetting cfg then ''https'' else ''http'')
      in [ReceiverContext (Name cfg) transport (Name cfg),
          StartMetricsReceiveOp (Name cfg) transport] @
         (if Method req \<noteq> MethodPost
          then failRequest c StatusBadRequest invalidMethodRespBody None
          else if Header req httpContentTypeHeader \<noteq> jsonContentType
          then failRequest c StatusUnsupportedMediaType invalidContentRespBody None
          else let encoding = Header req httpContentEncodingHeader
               in if encoding \<noteq> [] \<and> encoding \<noteq> gzipEncoding
                  then failRequest c StatusUnsupportedMediaType invalidEncodingRespBody None
                  else readBody cfg c req encoding))"

subsection \<open>What is observed of a run\<close>

text \<open>
  The status a client receives is that of the first \<open>WriteHeader\<close>; a \<open>Write\<close> with no
  \<open>WriteHeader\<close> before it sends 200, as \<open>net/http\<close> documents. No write, no response.
\<close>

fun respStatus :: "'l effect list \<Rightarrow> int option" where
  "respStatus [] = None"
| "respStatus (WriteHeader code # es) = Some code"
| "respStatus (Write b # es) = Some StatusOK"
| "respStatus (e # es) = respStatus es"

fun writes :: "'l effect list \<Rightarrow> string list" where
  "writes [] = []"
| "writes (Write b # es) = b # writes es"
| "writes (e # es) = writes es"

fun consumed :: "'l effect list \<Rightarrow> 'l Logs list" where
  "consumed [] = []"
| "consumed (ConsumeLogsCall ld # es) = ld # consumed es"
| "consumed (e # es) = consumed es"

text \<open>
  \<open>obsreport.EndMetricsReceiveOp\<close> (of \<open>go.opentelemetry.io/collector\<close>) works on the
  span that \<open>StartMetricsReceiveOp\<close> put into the context, the one that \<open>failRequest\<close>
  takes from it: it sets the span's status to \<open>errToStatus(err)\<close>, which is unknown
  for an error and OK for nil, and then ends the span.
\<close>

definition errToStatus :: "error option \<Rightarrow> StatusCode" where
  "errToStatus err = (case err of Some e \<Rightarrow> StatusCodeUnknown | None \<Rightarrow> StatusCodeOK)"

text \<open>The statuses set on the span, in their order.\<close>

fun spanStatuses :: "'l effect list \<Rightarrow> StatusCode list" where
  "spanStatuses [] = []"
| "spanStatuses (SpanSetStatus code msg # es) = code # spanStatuses es"
| "spanStatuses (EndMetricsReceiveOp t n m err # es) = errToStatus err # spanStatuses es"
| "spanStatuses (e # es) = spanStatuses es"

text \<open>
  The status that the span has when it is ended for the first time, which is the one it
  is exported with: a status set after that does not reach the exported span. \<open>None\<close>
  when the span is not ended.
\<close>

fun statusAtEnd :: "StatusCode \<Rightarrow> 'l effect list \<Rightarrow> StatusCode option" where
  "statusAtEnd cur [] = None"
| "statusAtEnd cur (SpanSetStatus code msg # es) = statusAtEnd code es"
| "statusAtEnd cur (SpanEnd # es) = Some cur"
| "statusAtEnd cur (EndMetricsReceiveOp t n m err # es) = Some (errToStatus err)"
| "statusAtEnd cur (e # es) = statusAtEnd cur es"

definition exportedStatus :: "'l effect list \<Rightarrow> StatusCode option" where
  "exportedStatus es = statusAtEnd StatusCodeOK es"

text \<open>
  The calls that end the span: \<open>reqSpan.End()\<close>, and \<open>obsreport.EndMetricsReceiveOp\<close>.
  The count is of calls; the span of a request is one.
\<close>

fun spanCompletions :: "'l effect list \<Rightarrow> nat" where
  "spanCompletions [] = 0"
| "spanCompletions (SpanEnd # es) = Suc (spanCompletions es)"
| "spanCompletions (EndMetricsReceiveOp t n m err # es) = Suc (spanCompletions es)"
| "spanCompletions (e # es) = spanCompletions es"

text \<open>The calls that read the request body, and the calls of the classifier.\<close>

fun bodyReads :: "'l effect list \<Rightarrow> nat" where
  "bodyReads [] = 0"
| "bodyReads (NewGzipReader # es) = Suc (bodyReads es)"
| "bodyReads (DecDecode # es) = Suc (bodyReads es)"
| "bodyReads (e # es) = bodyReads es"

fun classified :: "'l effect list \<Rightarrow> nat" where
  "classified [] = 0"
| "classified (IsMetricCall # es) = Suc (classified es)"
| "classified (e # es) = classified es"

subsection \<open>Conditions on a request\<close>

text \<open>
  The three tests of lines 166 to 180 all pass; and \<open>gzip.NewReader\<close>, where the
  handler calls it, returns no error.
\<close>

definition passesValidation :: "'e Request \<Rightarrow> bool" where
  "passesValidation req \<longleftrightarrow>
     Method req = MethodPost \<and>
     Header req httpContentTypeHeader = jsonContentType \<and>
     (Header req httpContentEncodingHeader = [] \<or>
      Header req httpContentEncodingHeader = gzipEncoding)"

definition gzipReaderOK :: "'e Request \<Rightarrow> bool" where
  "gzipReaderOK req \<longleftrightarrow>
     (if Header req httpContentEncodingHeader = gzipEncoding
      then GzipNewReader req = None else True)"

subsection \<open>Concrete requests\<close>

text \<open>
  Events are strings here and the metric event is the string \<open>metric\<close>; a log record
  is the event itself. The consumer returns the given result for every batch.
\<close>

definition exHeader :: "string \<Rightarrow> string \<Rightarrow> string \<Rightarrow> string" where
  "exHeader contentType contentEncoding k =
     (if k = httpContentTypeHeader then contentType
      else if k = httpContentEncodingHeader then contentEncoding
      else [])"

definition exConfig :: Config where
  "exConfig = \<lparr>Name = ''splunk_hec'', TLSSetting = False, AccessTokenPassthrough = False\<rparr>"

definition exCollaborators :: "error option \<Rightarrow> (string, string) Collaborators" where
  "exCollaborators consumerResult =
     \<lparr>IsMetric = (\<lambda>e. e = ''metric''),
      toLogRecord = Inr,
      ConsumeLogs = (\<lambda>ld. consumerResult),
      respWrite = (\<lambda>b. None),
      SplunkHECTokenHeader = ''Splunk'',
      SplunkHecTokenLabel = ''com.splunk.hec.access_token'',
      typeStr = ''splunk_hec''\<rparr>"

definition exRequest ::
  "string \<Rightarrow> string \<Rightarrow> string \<Rightarrow> int \<Rightarrow> error option \<Rightarrow> string decoded list
     \<Rightarrow> string Request" where
  "exRequest m contentType contentEncoding len gz body =
     \<lparr>Method = m, Header = exHeader contentType contentEncoding, ContentLength = len,
      GzipNewReader = gz, Body = body\<rparr>"

section \<open>Azure Event Hub receiver: conversion of raw values\<close>

text \<open>
  The dynamic values that \<open>Test_newValueFromRaw\<close> of
  \<open>receiver/azureeventhubreceiver/client_test.go\<close> passes to \<open>newValueFromRaw\<close>: nil,
  a string, the integer types (\<open>int\<close> and \<open>uint\<close> are 64 bits wide), the two float
  types (by their IEEE 754 bits), a bool, a byte slice, a map from strings, a slice, and
  a value of any other type (the test passes a \<open>*Config\<close>), kept by the name of its type.
  A Go map has no order and no duplicate keys; the list is the order of iteration.
\<close>

datatype raw =
    RNil
  | RString string
  | RInt "64 word" | RInt8 "8 word" | RInt16 "16 word" | RInt32 "32 word" | RInt64 "64 word"
  | RUint "64 word" | RUint8 "8 word" | RUint16 "16 word" | RUint32 "32 word"
  | RUint64 "64 word"
  | RFloat32 "32 word" | RFloat64 "64 word"
  | RBool bool
  | RBytes "8 word list"
  | RMap "(string \<times> raw) list"
  | RSlice "raw list"
  | ROther string

text \<open>
  Modelled from the spec: the Value union of section 3 (its declaration is in
  \<open>pcommon\<close>, not among the sources): null, string, signed and unsigned integers of 8,
  16, 32 and 64 bits, floats of 32 and 64 bits, bool, byte sequence, mapping from strings
  to values, sequence of values. The empty Value is the null one.
\<close>

datatype Value =
    VNull
  | VString string
  | VInt8 "8 word" | VInt16 "16 word" | VInt32 "32 word" | VInt64 "64 word"
  | VUint8 "8 word" | VUint16 "16 word" | VUint32 "32 word" | VUint64 "64 word"
  | VFloat32 "32 word" | VFloat64 "64 word"
  | VBool bool
  | VBytes "8 word list"
  | VMap "(string \<times> Value) list"
  | VSeq "Value list"

datatype convError = UnsupportedType string

text \<open>
  Modelled from the spec: \<open>newValueFromRaw\<close> (\<open>client.go\<close> of the receiver is not among
  the sources, only its test is). By sections 3 and 8 the conversion keeps the width and
  the sign of a number, converts the entries of a mapping and the elements of a sequence,
  and for a value outside the closed set returns the unsupported type error with the
  empty Value, never a partial one. The result is the pair that the Go function
  returns: the value and the error (\<open>None\<close> for nil).
\<close>

fun newValueFromRaw :: "raw \<Rightarrow> Value \<times> convError option"
  and sliceFromRaw :: "raw list \<Rightarrow> Value list \<times> convError option"
  and mapFromRaw :: "(string \<times> raw) list \<Rightarrow> (string \<times> Value) list \<times> convError option"
  where
  "newValueFromRaw RNil = (VNull, None)"
| "newValueFromRaw (RString s) = (VString s, None)"
| "newValueFromRaw (RInt i) = (VInt64 i, None)"
| "newValueFromRaw (RInt8 i) = (VInt8 i, None)"
| "newValueFromRaw (RInt16 i) = (VInt16 i, None)"
| "newValueFromRaw (RInt32 i) = (VInt32 i, None)"
| "newValueFromRaw (RInt64 i) = (VInt64 i, None)"
| "newValueFromRaw (RUint i) = (VUint64 i, None)"
| "newValueFromRaw (RUint8 i) = (VUint8 i, None)"
| "newValueFromRaw (RUint16 i) = (VUint16 i, None)"
| "newValueFromRaw (RUint32 i) = (VUint32 i, None)"
| "newValueFromRaw (RUint64 i) = (VUint64 i, None)"
| "newValueFromRaw (RFloat32 f) = (VFloat32 f, None)"
| "newValueFromRaw (RFloat64 f) = (VFloat64 f, None)"
| "newValueFromRaw (RBool b) = (VBool b, None)"
| "newValueFromRaw (RBytes bs) = (VBytes bs, None)"
| "newValueFromRaw (RMap m) =
     (case mapFromRaw m of
        (kvs, None) \<Rightarrow> (VMap kvs, None)
      | (kvs, Some e) \<Rightarrow> (VNull, Some e))"
| "newValueFromRaw (RSlice xs) =
     (case sliceFromRaw xs of
        (vs, None) \<Rightarrow> (VSeq vs, None)
      | (vs, Some e) \<Rightarrow> (VNull, Some e))"
| "newValueFromRaw (ROther t) = (VNull, Some (UnsupportedType t))"
| "sliceFromRaw [] = ([], None)"
| "sliceFromRaw (x # xs) =
     (case newValueFromRaw x of
        (v, Some e) \<Rightarrow> ([], Some e)
      | (v, None) \<Rightarrow>
          (case sliceFromRaw xs of
             (vs, Some e) \<Rightarrow> ([], Some e)
           | (vs, None) \<Rightarrow> (v # vs, None)))"
| "mapFromRaw [] = ([], None)"
| "mapFromRaw ((k, x) # m) =
     (case newValueFromRaw x of
        (v, Some e) \<Rightarrow> ([], Some e)
      | (v, None) \<Rightarrow>
          (case mapFromRaw m of
             (kvs, Some e) \<Rightarrow> ([], Some e)
           | (kvs, None) \<Rightarrow> ((k, v) # kvs, None)))"

text \<open>
  The closed supported set: every dynamic type but the other ones, with the entries of
  a map and the elements of a slice in the set too.
\<close>

fun supported :: "raw \<Rightarrow> bool"
  and supportedList :: "raw list \<Rightarrow> bool"
  and supportedMap :: "(string \<times> raw) list \<Rightarrow> bool" where
  "supported (ROther t) = False"
| "supported (RMap m) = supportedMap m"
| "supported (RSlice xs) = supportedList xs"
| "supported r = True"
| "supportedList [] = True"
| "supportedList (x # xs) = (supported x \<and> supportedList xs)"
| "supportedMap [] = True"
| "supportedMap ((k, x) # m) = (supported x \<and> supportedMap m)"

text \<open>The values of the test table, in its order.\<close>

definition testValues :: "raw list" where
  "testValues =
     [RNil, RString ''foo'', RInt 1234, RInt8 12, RInt16 123, RInt32 123, RInt64 123,
      RUint 123, RUint8 12, RUint16 1233, RUint32 1233, RUint64 1233,
      RFloat32 0x449A2CCD, RFloat64 0x409345999999999A, RBool True,
      RBytes [0x66, 0x6F, 0x6F], RMap [(''foo'', RString ''bar'')],
      RSlice [RString ''foo'']]"

section \<open>Properties of the request handler\<close>

subsection \<open>Reading the effects\<close>

lemma respStatus_append:
  "respStatus (xs @ ys) = (case respStatus xs of None \<Rightarrow> respStatus ys | Some s \<Rightarrow> Some s)"
  by (induction xs rule: respStatus.induct) simp_all

lemma writes_append: "writes (xs @ ys) = writes xs @ writes ys"
  by (induction xs rule: writes.induct) simp_all

lemma consumed_append: "consumed (xs @ ys) = consumed xs @ consumed ys"
  by (induction xs rule: consumed.induct) simp_all

lemma spanStatuses_append: "spanStatuses (xs @ ys) = spanStatuses xs @ spanStatuses ys"
  by (induction xs rule: spanStatuses.induct) simp_all

lemma spanCompletions_append: "spanCompletions (xs @ ys) = spanCompletions xs + spanCompletions ys"
  by (induction xs rule: spanCompletions.induct) simp_all

lemma bodyReads_append: "bodyReads (xs @ ys) = bodyReads xs + bodyReads ys"
  by (induction xs rule: bodyReads.induct) simp_all

lemma classified_append: "classified (xs @ ys) = classified xs + classified ys"
  by (induction xs rule: classified.induct) simp_all

lemmas observe_append =
  respStatus_append writes_append consumed_append spanStatuses_append
  spanCompletions_append bodyReads_append classified_append

lemma failRequest_respStatus: "respStatus (failRequest c code body err) = Some code"
  by (simp add: failRequest_def)

lemma failRequest_writes:
  "writes (failRequest c code body err) = (if body = [] then [] else [body])"
  by (simp add: failRequest_def split: option.splits)

lemma failRequest_consumed: "consumed (failRequest c code body err) = []"
  by (simp add: failRequest_def split: option.splits)

lemma failRequest_spanStatuses:
  "spanStatuses (failRequest c code body err) =
     [if code = StatusInternalServerError then StatusCodeInternal else StatusCodeInvalidArgument]"
  by (simp add: failRequest_def split: option.splits)

lemma failRequest_spanCompletions: "spanCompletions (failRequest c code body err) = 1"
  by (simp add: failRequest_def split: option.splits)

lemma failRequest_bodyReads: "bodyReads (failRequest c code body err) = 0"
  by (simp add: failRequest_def split: option.splits)

lemma failRequest_classified: "classified (failRequest c code body err) = 0"
  by (simp add: failRequest_def split: option.splits)

lemmas failRequest_observe =
  failRequest_respStatus failRequest_writes failRequest_consumed failRequest_spanStatuses
  failRequest_spanCompletions failRequest_bodyReads failRequest_classified

lemma initJSONResponse_not_Nil: "initJSONResponse s \<noteq> []"
  by (simp add: initJSONResponse_def)

lemma bodies_not_Nil:
  "okRespBody \<noteq> []" "invalidMethodRespBody \<noteq> []" "invalidContentRespBody \<noteq> []"
  "invalidEncodingRespBody \<noteq> []" "errGzipReaderRespBody \<noteq> []"
  "errUnmarshalBodyRespBody \<noteq> []" "errNextConsumerRespBody \<noteq> []"
  "errUnsupportedMetricEvent \<noteq> []"
  by (simp_all add: okRespBody_def invalidMethodRespBody_def invalidContentRespBody_def
      invalidEncodingRespBody_def errGzipReaderRespBody_def errUnmarshalBodyRespBody_def
      errNextConsumerRespBody_def errUnsupportedMetricEvent_def initJSONResponse_not_Nil)

subsection \<open>The loop and the handler\<close>

lemma decodeEvents_metric:
  assumes "\<forall>e\<in>set logs. \<not> IsMetric c e" "IsMetric c m"
  shows "snd (decodeEvents c (map Decoded logs @ Decoded m # rest) n evs) = None \<and>
         respStatus (fst (decodeEvents c (map Decoded logs @ Decoded m # rest) n evs))
           = Some StatusBadRequest \<and>
         writes (fst (decodeEvents c (map Decoded logs @ Decoded m # rest) n evs))
           = [errUnsupportedMetricEvent] \<and>
         consumed (fst (decodeEvents c (map Decoded logs @ Decoded m # rest) n evs)) = []"
  using assms
  by (induction logs arbitrary: n evs)
     (simp_all add: failRequest_observe bodies_not_Nil split_beta)

lemma decodeEvents_malformed:
  assumes "\<forall>e\<in>set logs. \<not> IsMetric c e"
  shows "snd (decodeEvents c (map Decoded logs @ DecodeErr err # rest) n evs) = None \<and>
         respStatus (fst (decodeEvents c (map Decoded logs @ DecodeErr err # rest) n evs))
           = Some StatusBadRequest \<and>
         writes (fst (decodeEvents c (map Decoded logs @ DecodeErr err # rest) n evs))
           = [errUnmarshalBodyRespBody] \<and>
         consumed (fst (decodeEvents c (map Decoded logs @ DecodeErr err # rest) n evs)) = []"
  using assms
  by (induction logs arbitrary: n evs)
     (simp_all add: failRequest_observe bodies_not_Nil split_beta)

lemma decodeEvents_Some:
  "decodeEvents c body n evs = (effs, Some (k, es)) \<Longrightarrow>
     (\<exists>logs tail. body = map Decoded logs @ tail \<and>
        (tail = [] \<or> (\<exists>rest. tail = NoMore # rest)) \<and>
        (\<forall>e\<in>set logs. \<not> IsMetric c e) \<and>
        es = evs @ logs \<and> k = n + length logs) \<and>
     respStatus effs = None \<and> writes effs = [] \<and> consumed effs = [] \<and>
     spanStatuses effs = [] \<and> spanCompletions effs = 0"
proof (induction c body n evs arbitrary: effs rule: decodeEvents.induct)
  case (1 c messagesReceived events)
  then show ?case by simp
next
  case (2 c err rest messagesReceived events)
  then show ?case by simp
next
  case (3 c msg rest messagesReceived events)
  from "3.prems" have nm: "\<not> IsMetric c msg" by (auto split: if_splits)
  obtain effs' where
    rec: "decodeEvents c rest (messagesReceived + 1) (events @ [msg]) = (effs', Some (k, es))"
    and effs: "effs = DecDecode # IsMetricCall # effs'"
    using "3.prems" nm by (auto split: prod.splits)
  from "3.IH"[OF nm rec] obtain logs tail where
    l: "rest = map Decoded logs @ tail" "tail = [] \<or> (\<exists>rest'. tail = NoMore # rest')"
       "\<forall>e\<in>set logs. \<not> IsMetric c e"
       "es = (events @ [msg]) @ logs" "k = messagesReceived + 1 + length logs"
    and o: "respStatus effs' = None" "writes effs' = []" "consumed effs' = []"
       "spanStatuses effs' = []" "spanCompletions effs' = 0"
    by blast
  have "Decoded msg # rest = map Decoded (msg # logs) @ tail \<and>
     (tail = [] \<or> (\<exists>rest'. tail = NoMore # rest')) \<and>
     (\<forall>e\<in>set (msg # logs). \<not> IsMetric c e) \<and>
     es = events @ (msg # logs) \<and> k = messagesReceived + length (msg # logs)"
    using l nm by simp
  then show ?case using o effs by (intro conjI exI[of _ "msg # logs"] exI[of _ tail]) simp_all
next
  case (4 c rest messagesReceived events)
  then have e: "effs = []" "k = messagesReceived" "es = events" by simp_all
  have "NoMore # rest = map Decoded [] @ NoMore # rest \<and>
     (NoMore # rest = [] \<or> (\<exists>rest'. NoMore # rest = NoMore # rest')) \<and>
     (\<forall>e\<in>set []. \<not> IsMetric c e) \<and>
     es = events @ [] \<and> k = messagesReceived + length ([] :: 'a list)"
    using e by simp
  then show ?case using e
    by (intro conjI exI[of _ "[] :: 'a list"] exI[of _ "NoMore # rest"]) simp_all
qed

lemma map_Decoded_stop:
  assumes "map Decoded xs = map Decoded ys @ tail"
    and "tail = [] \<or> (\<exists>rest. tail = NoMore # rest)"
  shows "tail = [] \<and> ys = xs"
proof -
  have "NoMore \<notin> set (map Decoded xs)" by auto
  with assms(1) have "NoMore \<notin> set tail" by simp
  with assms(2) have t: "tail = []" by auto
  with assms(1) have "map Decoded ys = map Decoded xs" by simp
  then have "ys = xs" by (simp add: inj_on_def inj_map_eq_map)
  with t show ?thesis by simp
qed

lemma decodeEvents_logs:
  assumes "\<forall>e\<in>set logs. \<not> IsMetric c e"
  shows "snd (decodeEvents c (map Decoded logs) n evs) = Some (n + length logs, evs @ logs)"
  using assms
  by (induction logs arbitrary: n evs) (simp_all add: split_beta)

lemma decodeEvents_None_consumed:
  "decodeEvents c body n evs = (effs, None) \<Longrightarrow> consumed effs = []"
  by (induction c body n evs arbitrary: effs rule: decodeEvents.induct)
     (auto simp: failRequest_observe split: if_splits prod.splits)


lemma handleReq_valid:
  assumes "passesValidation req" "gzipReaderOK req"
  shows "\<exists>pre. respStatus pre = None \<and> writes pre = [] \<and> consumed pre = [] \<and>
           spanStatuses pre = [] \<and> spanCompletions pre = 0 \<and> classified pre = 0 \<and>
           handleReq cfg c req = pre @
             (if ContentLength req = 0 then [Write okRespBody]
              else (case decodeEvents c (Body req) 0 [] of
                      (effs, None) \<Rightarrow> effs
                    | (effs, Some (messagesReceived, events)) \<Rightarrow>
                        effs @ consumeEvents cfg c req messagesReceived events))"
proof -
  let ?pre = "[ReceiverContext (Name cfg) (if TLSSetting cfg then ''https'' else ''http'') (Name cfg),
               StartMetricsReceiveOp (Name cfg) (if TLSSetting cfg then ''https'' else ''http'')] @
              (if Header req httpContentEncodingHeader = gzipEncoding then [NewGzipReader] else [])"
  have "handleReq cfg c req = ?pre @
             (if ContentLength req = 0 then [Write okRespBody]
              else (case decodeEvents c (Body req) 0 [] of
                      (effs, None) \<Rightarrow> effs
                    | (effs, Some (messagesReceived, events)) \<Rightarrow>
                        effs @ consumeEvents cfg c req messagesReceived events))"
    using assms
    by (auto simp: handleReq_def readBody_def passesValidation_def gzipReaderOK_def Let_def)
  moreover have "respStatus ?pre = None \<and> writes ?pre = [] \<and> consumed ?pre = [] \<and>
           spanStatuses ?pre = [] \<and> spanCompletions ?pre = 0 \<and> classified ?pre = 0"
    by simp
  ultimately show ?thesis by blast
qed

text \<open>
  Claim C1, amended. For every request that passes the method, content type and content
  encoding tests, whose gzip reader (when the encoding is gzip) is constructed, whose
  declared length is not zero, and in whose body every value before the first metric
  event decodes to a log event: the handler answers with status 400 and the unsupported
  metric body, and it never calls the downstream consumer, whatever follows the metric
  event and however many log events precede it.
\<close>

theorem metric_event_rejected:
  assumes "passesValidation req" "gzipReaderOK req" "ContentLength req \<noteq> 0"
    and "Body req = map Decoded logs @ Decoded m # rest"
    and "\<forall>e\<in>set logs. \<not> IsMetric c e" "IsMetric c m"
  shows "respStatus (handleReq cfg c req) = Some StatusBadRequest \<and>
         writes (handleReq cfg c req) = [errUnsupportedMetricEvent] \<and>
         consumed (handleReq cfg c req) = []"
proof -
  obtain pre where pre: "respStatus pre = None" "writes pre = []" "consumed pre = []"
    and h: "handleReq cfg c req = pre @
             (case decodeEvents c (Body req) 0 [] of
                      (effs, None) \<Rightarrow> effs
                    | (effs, Some (messagesReceived, events)) \<Rightarrow>
                        effs @ consumeEvents cfg c req messagesReceived events)"
    using handleReq_valid[OF assms(1,2), of cfg c] assms(3) by auto
  obtain effs r where d: "decodeEvents c (Body req) 0 [] = (effs, r)"
    by (cases "decodeEvents c (Body req) 0 []")
  from decodeEvents_metric[OF assms(5,6), of rest 0 "[]"] d assms(4)
  have "r = None" "respStatus effs = Some StatusBadRequest"
    "writes effs = [errUnsupportedMetricEvent]" "consumed effs = []"
    by simp_all
  with h d pre show ?thesis by (simp add: observe_append)
qed

text \<open>
  Claim C3, amended. For every request that passes the method, content type and content
  encoding tests, whose gzip reader (when the encoding is gzip) is constructed, whose
  declared length is not zero, and in whose body the decoder, after zero or more values
  that decode to log events and with \<open>dec.More()\<close> reporting a further value, is
  handed a value on which \<open>dec.Decode\<close> returns an error: the handler answers with
  status 400 and the unmarshal failure body, and it never calls the downstream consumer,
  however many values decoded before. Nothing is said of a body in which, before any
  such value, \<open>dec.More()\<close> reports no further value.
\<close>

theorem malformed_value_rejected:
  assumes "passesValidation req" "gzipReaderOK req" "ContentLength req \<noteq> 0"
    and "Body req = map Decoded logs @ DecodeErr err # rest"
    and "\<forall>e\<in>set logs. \<not> IsMetric c e"
  shows "respStatus (handleReq cfg c req) = Some StatusBadRequest \<and>
         writes (handleReq cfg c req) = [errUnmarshalBodyRespBody] \<and>
         consumed (handleReq cfg c req) = []"
proof -
  obtain pre where pre: "respStatus pre = None" "writes pre = []" "consumed pre = []"
    and h: "handleReq cfg c req = pre @
             (case decodeEvents c (Body req) 0 [] of
                      (effs, None) \<Rightarrow> effs
                    | (effs, Some (messagesReceived, events)) \<Rightarrow>
                        effs @ consumeEvents cfg c req messagesReceived events)"
    using handleReq_valid[OF assms(1,2), of cfg c] assms(3) by auto
  obtain effs r where d: "decodeEvents c (Body req) 0 [] = (effs, r)"
    by (cases "decodeEvents c (Body req) 0 []")
  from decodeEvents_malformed[OF assms(5), of err rest 0 "[]"] d assms(4)
  have "r = None" "respStatus effs = Some StatusBadRequest"
    "writes effs = [errUnmarshalBodyRespBody]" "consumed effs = []"
    by simp_all
  with h d pre show ?thesis by (simp add: observe_append)
qed

text \<open>
  Claim C4, amended. For every request that passes the method, content type and content
  encoding tests, whose gzip reader (when the encoding is gzip) is constructed, and
  whose declared length is zero: the handler answers with status 200 and the OK body,
  and calls neither the classifier nor the downstream consumer.
\<close>

theorem empty_body_ok:
  assumes "passesValidation req" "gzipReaderOK req" "ContentLength req = 0"
  shows "respStatus (handleReq cfg c req) = Some StatusOK \<and>
         writes (handleReq cfg c req) = [okRespBody] \<and>
         classified (handleReq cfg c req) = 0 \<and>
         consumed (handleReq cfg c req) = []"
proof -
  obtain pre where pre: "respStatus pre = None" "writes pre = []" "consumed pre = []"
      "classified pre = 0"
    and h: "handleReq cfg c req = pre @ [Write okRespBody]"
    using handleReq_valid[OF assms(1,2), of cfg c] assms(3) by auto
  then show ?thesis by (simp add: observe_append)
qed

text \<open>
  Claim C5. The tests run in the order method, content type, content encoding, and the
  first that fails decides the answer: a method other than POST gives status 400 with
  the invalid method body; with POST, a content type other than application/json gives
  status 415 with the invalid content type body, and nothing of the body has been read;
  with both right, a content encoding that is neither empty nor gzip gives status 415
  with the invalid encoding body.
\<close>

theorem validation_order:
  "(Method req \<noteq> MethodPost \<longrightarrow>
      respStatus (handleReq cfg c req) = Some StatusBadRequest \<and>
      writes (handleReq cfg c req) = [invalidMethodRespBody]) \<and>
   (Method req = MethodPost \<and> Header req httpContentTypeHeader \<noteq> jsonContentType \<longrightarrow>
      respStatus (handleReq cfg c req) = Some StatusUnsupportedMediaType \<and>
      writes (handleReq cfg c req) = [invalidContentRespBody] \<and>
      bodyReads (handleReq cfg c req) = 0) \<and>
   (Method req = MethodPost \<and> Header req httpContentTypeHeader = jsonContentType \<and>
    Header req httpContentEncodingHeader \<noteq> [] \<and>
    Header req httpContentEncodingHeader \<noteq> gzipEncoding \<longrightarrow>
      respStatus (handleReq cfg c req) = Some StatusUnsupportedMediaType \<and>
      writes (handleReq cfg c req) = [invalidEncodingRespBody])"
  by (simp add: handleReq_def Let_def failRequest_observe bodies_not_Nil)


lemma SplunkHecToLogData_Inr:
  "SplunkHecToLogData f es = Inr ls \<Longrightarrow> list_all2 (\<lambda>e l. f e = Inr l) es ls"
  by (induction es arbitrary: ls) (auto split: sum.splits)

lemma handleReq_invalid_consumed:
  assumes "\<not> (passesValidation req \<and> gzipReaderOK req \<and> ContentLength req \<noteq> 0)"
  shows "consumed (handleReq cfg c req) = []"
  using assms
  by (auto simp: handleReq_def readBody_def passesValidation_def gzipReaderOK_def Let_def
      failRequest_observe observe_append split: option.splits if_splits)

lemma handleReq_consumed_cases:
  "consumed (handleReq cfg c req) = [] \<or>
   (\<exists>pre evs logSlice.
      respStatus pre = None \<and> writes pre = [] \<and> consumed pre = [] \<and>
      spanStatuses pre = [] \<and> spanCompletions pre = 0 \<and>
      passesValidation req \<and> gzipReaderOK req \<and> ContentLength req \<noteq> 0 \<and>
      (\<exists>tail. Body req = map Decoded evs @ tail \<and>
         (tail = [] \<or> (\<exists>rest. tail = NoMore # rest))) \<and>
      (\<forall>e\<in>set evs. \<not> IsMetric c e) \<and>
      SplunkHecToLogData (toLogRecord c) evs = Inr logSlice \<and>
      handleReq cfg c req =
        pre @ [ConsumeLogsCall (assembleLogs cfg c req logSlice),
               EndMetricsReceiveOp (typeStr c) (length evs) (length evs)
                 (ConsumeLogs c (assembleLogs cfg c req logSlice))] @
        (case ConsumeLogs c (assembleLogs cfg c req logSlice) of
           Some e \<Rightarrow> failRequest c StatusInternalServerError errNextConsumerRespBody (Some e)
         | None \<Rightarrow> [WriteHeader StatusAccepted, Write okRespBody]))"
proof (cases "passesValidation req \<and> gzipReaderOK req \<and> ContentLength req \<noteq> 0")
  case False
  then show ?thesis using handleReq_invalid_consumed by blast
next
  case True
  then obtain pre where pre: "respStatus pre = None" "writes pre = []" "consumed pre = []"
      "spanStatuses pre = []" "spanCompletions pre = 0"
    and h: "handleReq cfg c req = pre @
             (case decodeEvents c (Body req) 0 [] of
                      (effs, None) \<Rightarrow> effs
                    | (effs, Some (messagesReceived, events)) \<Rightarrow>
                        effs @ consumeEvents cfg c req messagesReceived events)"
    using handleReq_valid[of req cfg c] by auto
  obtain effs r where d: "decodeEvents c (Body req) 0 [] = (effs, r)"
    by (cases "decodeEvents c (Body req) 0 []")
  show ?thesis
  proof (cases r)
    case None
    with d h pre decodeEvents_None_consumed[of c "Body req" 0 "[]" effs]
    show ?thesis by (simp add: observe_append)
  next
    case (Some p)
    obtain k es where p: "p = (k, es)" by (cases p)
    from decodeEvents_Some[of c "Body req" 0 "[]" effs k es] d Some p
    have body: "\<exists>tail. Body req = map Decoded es @ tail \<and>
         (tail = [] \<or> (\<exists>rest. tail = NoMore # rest))"
        "\<forall>e\<in>set es. \<not> IsMetric c e" "k = length es"
      and o: "respStatus effs = None" "writes effs = []" "consumed effs = []"
         "spanStatuses effs = []" "spanCompletions effs = 0"
      by auto
    have h': "handleReq cfg c req = (pre @ effs) @ consumeEvents cfg c req (length es) es"
      using h d Some p body(3) by simp
    show ?thesis
    proof (cases "SplunkHecToLogData (toLogRecord c) es")
      case (Inl err)
      with h' pre o show ?thesis
        by (simp add: consumeEvents_def observe_append failRequest_observe)
    next
      case (Inr logSlice)
      have "handleReq cfg c req =
        (pre @ effs) @ [ConsumeLogsCall (assembleLogs cfg c req logSlice),
               EndMetricsReceiveOp (typeStr c) (length es) (length es)
                 (ConsumeLogs c (assembleLogs cfg c req logSlice))] @
        (case ConsumeLogs c (assembleLogs cfg c req logSlice) of
           Some e \<Rightarrow> failRequest c StatusInternalServerError errNextConsumerRespBody (Some e)
         | None \<Rightarrow> [WriteHeader StatusAccepted, Write okRespBody])"
        using h' Inr by (simp add: consumeEvents_def Let_def)
      moreover have "respStatus (pre @ effs) = None \<and> writes (pre @ effs) = [] \<and>
          consumed (pre @ effs) = [] \<and> spanStatuses (pre @ effs) = [] \<and>
          spanCompletions (pre @ effs) = 0"
        using pre o by (simp add: observe_append)
      ultimately show ?thesis using True body Inr by blast
    qed
  qed
qed

text \<open>
  When the consumer returns an error for the batch: status 500, the internal server
  error body, one call of the consumer, and two statuses set on the span, unknown by
  \<open>EndMetricsReceiveOp\<close> and then internal by \<open>failRequest\<close>.
\<close>

lemma consumer_failure_response:
  fixes c :: "('e, 'l) Collaborators"
  assumes "ld \<in> set (consumed (handleReq cfg c req))" "ConsumeLogs c ld = Some err"
  shows "respStatus (handleReq cfg c req) = Some StatusInternalServerError \<and>
         writes (handleReq cfg c req) = [errNextConsumerRespBody] \<and>
         consumed (handleReq cfg c req) = [ld] \<and>
         spanStatuses (handleReq cfg c req) = [StatusCodeUnknown, StatusCodeInternal]"
proof -
  from assms(1) have "consumed (handleReq cfg c req) \<noteq> []" by auto
  with handleReq_consumed_cases[of cfg c req] obtain pre and evs :: "'e list" and logSlice where
    pre: "respStatus pre = None" "writes pre = []" "consumed pre = []" "spanStatuses pre = []"
    and h: "handleReq cfg c req =
        pre @ [ConsumeLogsCall (assembleLogs cfg c req logSlice),
               EndMetricsReceiveOp (typeStr c) (length evs) (length evs)
                 (ConsumeLogs c (assembleLogs cfg c req logSlice))] @
        (case ConsumeLogs c (assembleLogs cfg c req logSlice) of
           Some e \<Rightarrow> failRequest c StatusInternalServerError errNextConsumerRespBody (Some e)
         | None \<Rightarrow> [WriteHeader StatusAccepted, Write okRespBody])"
    by blast
  have c1: "consumed (handleReq cfg c req) = [assembleLogs cfg c req logSlice]"
    using h pre by (simp add: observe_append failRequest_observe split: option.splits)
  with assms(1) have ld: "ld = assembleLogs cfg c req logSlice" by simp
  with assms(2) h have "handleReq cfg c req =
        pre @ [ConsumeLogsCall ld, EndMetricsReceiveOp (typeStr c) (length evs) (length evs) (Some err)] @
        failRequest c StatusInternalServerError errNextConsumerRespBody (Some err)"
    by simp
  with pre show ?thesis
    by (simp add: observe_append failRequest_observe bodies_not_Nil errToStatus_def)
qed

text \<open>A body of log events whose translation succeeds reaches the consumer as one batch.\<close>

lemma log_events_consumed:
  assumes "passesValidation req" "gzipReaderOK req" "ContentLength req \<noteq> 0"
    and "Body req = map Decoded evs" "\<forall>e\<in>set evs. \<not> IsMetric c e"
    and "SplunkHecToLogData (toLogRecord c) evs = Inr logSlice"
  shows "consumed (handleReq cfg c req) = [assembleLogs cfg c req logSlice]"
proof -
  obtain pre where pre: "consumed pre = []"
    and h: "handleReq cfg c req = pre @
             (case decodeEvents c (Body req) 0 [] of
                      (effs, None) \<Rightarrow> effs
                    | (effs, Some (messagesReceived, events)) \<Rightarrow>
                        effs @ consumeEvents cfg c req messagesReceived events)"
    using handleReq_valid[OF assms(1,2), of cfg c] assms(3) by auto
  obtain effs r where d: "decodeEvents c (Body req) 0 [] = (effs, r)"
    by (cases "decodeEvents c (Body req) 0 []")
  from decodeEvents_logs[OF assms(5), of 0 "[]"] d assms(4)
  have r: "r = Some (length evs, evs)" by simp
  with decodeEvents_Some[of c "Body req" 0 "[]" effs "length evs" evs] d
  have "consumed effs = []" by simp
  with h d r pre assms(6) show ?thesis
    by (simp add: observe_append consumeEvents_def Let_def failRequest_observe
        split: option.splits)
qed

text \<open>
  Claim C2. For every request whose body decodes to the log events \<open>evs\<close>, a batch that
  the handler assembles and hands on has exactly one resource logs entry, in it exactly
  one scope (instrumentation library logs entry), and in that exactly \<open>length evs\<close> log
  records, the i-th one translated from the i-th event.
\<close>

theorem batch_shape:
  assumes "Body req = map Decoded evs" "\<forall>e\<in>set evs. \<not> IsMetric c e"
    and "ld \<in> set (consumed (handleReq cfg c req))"
  shows "\<exists>res logs. ld = [\<lparr>Resource = res, InstrumentationLibraryLogs = [\<lparr>Logs = logs\<rparr>]\<rparr>] \<and>
           length logs = length evs \<and>
           list_all2 (\<lambda>e l. toLogRecord c e = Inr l) evs logs"
proof -
  from assms(3) have "consumed (handleReq cfg c req) \<noteq> []" by auto
  with handleReq_consumed_cases[of cfg c req] obtain pre evs' logSlice where
    pre: "consumed pre = []"
    and body: "\<exists>tail. Body req = map Decoded evs' @ tail \<and>
         (tail = [] \<or> (\<exists>rest. tail = NoMore # rest))"
    and conv: "SplunkHecToLogData (toLogRecord c) evs' = Inr logSlice"
    and h: "handleReq cfg c req =
        pre @ [ConsumeLogsCall (assembleLogs cfg c req logSlice),
               EndMetricsReceiveOp (typeStr c) (length evs') (length evs')
                 (ConsumeLogs c (assembleLogs cfg c req logSlice))] @
        (case ConsumeLogs c (assembleLogs cfg c req logSlice) of
           Some e \<Rightarrow> failRequest c StatusInternalServerError errNextConsumerRespBody (Some e)
         | None \<Rightarrow> [WriteHeader StatusAccepted, Write okRespBody])"
    by blast
  from body obtain tail where "map Decoded evs = map Decoded evs' @ tail"
    "tail = [] \<or> (\<exists>rest. tail = NoMore # rest)"
    using assms(1) by auto
  then have evs: "evs' = evs" using map_Decoded_stop by blast
  have "consumed (handleReq cfg c req) = [assembleLogs cfg c req logSlice]"
    using h pre by (simp add: observe_append failRequest_observe split: option.splits)
  with assms(3) have ld: "ld = assembleLogs cfg c req logSlice" by simp
  from SplunkHecToLogData_Inr[OF conv] evs
  have la: "list_all2 (\<lambda>e l. toLogRecord c e = Inr l) evs logSlice" by simp
  then have len: "length logSlice = length evs" by (simp add: list_all2_lengthD)
  show ?thesis using ld la len by (auto simp: assembleLogs_def Let_def)
qed

text \<open>
  Claim C10, amended. The short cut for the empty body is taken only for a declared
  length of zero: for every request that passes the method, content type and content
  encoding tests, whose gzip reader (when the encoding is gzip) is constructed, whose
  declared length differs from zero and whose body holds no JSON value, the handler
  assembles a batch with no log record, calls the downstream consumer with it once, and,
  when the consumer returns no error, answers with status 202 and the OK body.
\<close>

theorem empty_stream_consumed:
  assumes "passesValidation req" "gzipReaderOK req" "ContentLength req \<noteq> 0" "Body req = []"
  shows "\<exists>res. assembleLogs cfg c req [] =
             [\<lparr>Resource = res, InstrumentationLibraryLogs = [\<lparr>Logs = []\<rparr>]\<rparr>] \<and>
           consumed (handleReq cfg c req) = [assembleLogs cfg c req []] \<and>
           (ConsumeLogs c (assembleLogs cfg c req []) = None \<longrightarrow>
              respStatus (handleReq cfg c req) = Some StatusAccepted \<and>
              writes (handleReq cfg c req) = [okRespBody])"
proof -
  obtain pre where pre: "respStatus pre = None" "writes pre = []" "consumed pre = []"
    and h: "handleReq cfg c req = pre @ consumeEvents cfg c req 0 []"
    using handleReq_valid[OF assms(1,2), of cfg c] assms(3,4) by auto
  obtain res where r: "assembleLogs cfg c req [] =
             [\<lparr>Resource = res, InstrumentationLibraryLogs = [\<lparr>Logs = []\<rparr>]\<rparr>]"
    by (cases "AccessTokenPassthrough cfg \<and> Header req (SplunkHECTokenHeader c) \<noteq> []")
       (simp_all add: assembleLogs_def Let_def)
  have "consumed (handleReq cfg c req) = [assembleLogs cfg c req []]"
    using h pre
    by (simp add: consumeEvents_def Let_def observe_append failRequest_observe
        split: option.splits)
  moreover have "ConsumeLogs c (assembleLogs cfg c req []) = None \<longrightarrow>
              respStatus (handleReq cfg c req) = Some StatusAccepted \<and>
              writes (handleReq cfg c req) = [okRespBody]"
    using h pre by (simp add: consumeEvents_def Let_def observe_append)
  ultimately show ?thesis using r by (intro exI[of _ res] conjI)
qed

subsection \<open>Runs on concrete requests\<close>

lemmas run_defs =
  handleReq_def readBody_def consumeEvents_def assembleLogs_def failRequest_def
  exRequest_def exConfig_def exCollaborators_def exHeader_def
  passesValidation_def gzipReaderOK_def
  MethodPost_def jsonContentType_def gzipEncoding_def
  httpContentTypeHeader_def httpContentEncodingHeader_def Let_def
  StatusOK_def StatusAccepted_def StatusBadRequest_def StatusUnsupportedMediaType_def
  StatusInternalServerError_def

lemmas json_defs =
  okRespBody_def invalidMethodRespBody_def invalidContentRespBody_def
  invalidEncodingRespBody_def errGzipReaderRespBody_def errUnmarshalBodyRespBody_def
  errNextConsumerRespBody_def errUnsupportedMetricEvent_def initJSONResponse_def
  jsonEscape_def responseOK_def responseInvalidMethod_def responseInvalidContentType_def
  responseInvalidEncoding_def responseErrGzipReader_def responseErrUnmarshalBody_def
  responseErrNextConsumer_def responseErrUnsupportedMetricEvent_def

lemma bodies_distinct:
  "errUnmarshalBodyRespBody \<noteq> errUnsupportedMetricEvent"
  "invalidMethodRespBody \<noteq> errUnsupportedMetricEvent"
  "invalidContentRespBody \<noteq> errUnmarshalBodyRespBody"
  "errGzipReaderRespBody \<noteq> okRespBody"
  by (simp_all add: json_defs)

text \<open>The bodies as they go over the wire.\<close>

lemma response_bodies:
  "okRespBody = [CHR 0x22] @ ''OK'' @ [CHR 0x22]"
  "errUnmarshalBodyRespBody = [CHR 0x22] @ ''Failed to unmarshal message body'' @ [CHR 0x22]"
  "errNextConsumerRespBody = [CHR 0x22] @ ''Internal Server Error'' @ [CHR 0x22]"
  "errUnsupportedMetricEvent = [CHR 0x22] @ ''Unsupported metric event'' @ [CHR 0x22]"
  "errGzipReaderRespBody = [CHR 0x22] @ ''Error on gzip body'' @ [CHR 0x22]"
  "invalidMethodRespBody =
     [CHR 0x22] @ ''Only '' @ [CHR 0x5C, CHR 0x22] @ ''POST'' @ [CHR 0x5C, CHR 0x22] @
     '' method is supported'' @ [CHR 0x22]"
  by (simp_all add: json_defs)

text \<open>A request with a metric event between two log events (claim C1).\<close>

theorem metric_event_rejected_witness:
  "passesValidation (exRequest ''POST'' ''application/json'' [] 40 None
       [Decoded ''a'', Decoded ''metric'', Decoded ''b'']) \<and>
   \<not> IsMetric (exCollaborators None) ''a'' \<and>
   IsMetric (exCollaborators None) ''metric'' \<and>
   respStatus (handleReq exConfig (exCollaborators None)
     (exRequest ''POST'' ''application/json'' [] 40 None
       [Decoded ''a'', Decoded ''metric'', Decoded ''b''])) = Some StatusBadRequest \<and>
   writes (handleReq exConfig (exCollaborators None)
     (exRequest ''POST'' ''application/json'' [] 40 None
       [Decoded ''a'', Decoded ''metric'', Decoded ''b''])) = [errUnsupportedMetricEvent] \<and>
   consumed (handleReq exConfig (exCollaborators None)
     (exRequest ''POST'' ''application/json'' [] 40 None
       [Decoded ''a'', Decoded ''metric'', Decoded ''b''])) = []"
proof -
  let ?req = "exRequest ''POST'' ''application/json'' [] 40 None
       [Decoded ''a'', Decoded ''metric'', Decoded ''b'']"
  let ?c = "exCollaborators None"
  have v: "passesValidation ?req" by (simp add: run_defs)
  have g: "gzipReaderOK ?req" by (simp add: run_defs)
  have l: "ContentLength ?req \<noteq> 0" by (simp add: run_defs)
  have b: "Body ?req = map Decoded [''a''] @ Decoded ''metric'' # [Decoded ''b'']"
    by (simp add: run_defs)
  have n: "\<forall>e\<in>set [''a'']. \<not> IsMetric ?c e" by (simp add: run_defs)
  have m: "IsMetric ?c ''metric''" by (simp add: run_defs)
  from metric_event_rejected[OF v g l b n m, of exConfig] v n m show ?thesis by simp
qed

text \<open>
  Claim C1 as it is written fails where a value that does not decode stands before the
  metric event (the unmarshal failure body is the answer), and where the method is not
  POST (the invalid method body is the answer).
\<close>

theorem metric_after_malformed_counterexample:
  "Decoded ''metric'' \<in> set (Body (exRequest ''POST'' ''application/json'' [] 40 None
       [DecodeErr ''json: cannot unmarshal number'', Decoded ''metric''])) \<and>
   IsMetric (exCollaborators None) ''metric'' \<and>
   writes (handleReq exConfig (exCollaborators None)
     (exRequest ''POST'' ''application/json'' [] 40 None
       [DecodeErr ''json: cannot unmarshal number'', Decoded ''metric'']))
     = [errUnmarshalBodyRespBody] \<and>
   errUnmarshalBodyRespBody \<noteq> errUnsupportedMetricEvent \<and>
   Decoded ''metric'' \<in> set (Body (exRequest ''PUT'' ''application/json'' [] 40 None
       [Decoded ''metric''])) \<and>
   writes (handleReq exConfig (exCollaborators None)
     (exRequest ''PUT'' ''application/json'' [] 40 None [Decoded ''metric'']))
     = [invalidMethodRespBody] \<and>
   invalidMethodRespBody \<noteq> errUnsupportedMetricEvent"
  by (simp add: run_defs bodies_distinct bodies_not_Nil)

text \<open>A request whose second value fails to decode (claim C3).\<close>

theorem malformed_value_rejected_witness:
  "passesValidation (exRequest ''POST'' ''application/json'' [] 40 None
       [Decoded ''a'', DecodeErr ''unexpected end of JSON input'']) \<and>
   \<not> IsMetric (exCollaborators None) ''a'' \<and>
   respStatus (handleReq exConfig (exCollaborators None)
     (exRequest ''POST'' ''application/json'' [] 40 None
       [Decoded ''a'', DecodeErr ''unexpected end of JSON input''])) = Some StatusBadRequest \<and>
   writes (handleReq exConfig (exCollaborators None)
     (exRequest ''POST'' ''application/json'' [] 40 None
       [Decoded ''a'', DecodeErr ''unexpected end of JSON input''])) = [errUnmarshalBodyRespBody] \<and>
   consumed (handleReq exConfig (exCollaborators None)
     (exRequest ''POST'' ''application/json'' [] 40 None
       [Decoded ''a'', DecodeErr ''unexpected end of JSON input''])) = []"
proof -
  let ?req = "exRequest ''POST'' ''application/json'' [] 40 None
       [Decoded ''a'', DecodeErr ''unexpected end of JSON input'']"
  let ?c = "exCollaborators None"
  have v: "passesValidation ?req" by (simp add: run_defs)
  have g: "gzipReaderOK ?req" by (simp add: run_defs)
  have l: "ContentLength ?req \<noteq> 0" by (simp add: run_defs)
  have b: "Body ?req = map Decoded [''a''] @ DecodeErr ''unexpected end of JSON input'' # []"
    by (simp add: run_defs)
  have n: "\<forall>e\<in>set [''a'']. \<not> IsMetric ?c e" by (simp add: run_defs)
  from malformed_value_rejected[OF v g l b n, of exConfig] v n show ?thesis by simp
qed

text \<open>
  Claim C3 as it is written fails where a metric event stands before the value that
  does not decode (the unsupported metric body is the answer), and where the content
  type is not application/json (the status is 415).
\<close>

theorem malformed_after_metric_counterexample:
  "DecodeErr ''json: cannot unmarshal number'' \<in>
     set (Body (exRequest ''POST'' ''application/json'' [] 40 None
       [Decoded ''metric'', DecodeErr ''json: cannot unmarshal number''])) \<and>
   writes (handleReq exConfig (exCollaborators None)
     (exRequest ''POST'' ''application/json'' [] 40 None
       [Decoded ''metric'', DecodeErr ''json: cannot unmarshal number'']))
     = [errUnsupportedMetricEvent] \<and>
   errUnsupportedMetricEvent \<noteq> errUnmarshalBodyRespBody \<and>
   DecodeErr ''json: cannot unmarshal number'' \<in>
     set (Body (exRequest ''POST'' ''text/plain'' [] 40 None
       [DecodeErr ''json: cannot unmarshal number''])) \<and>
   respStatus (handleReq exConfig (exCollaborators None)
     (exRequest ''POST'' ''text/plain'' [] 40 None
       [DecodeErr ''json: cannot unmarshal number'']))
     = Some StatusUnsupportedMediaType \<and>
   StatusUnsupportedMediaType \<noteq> StatusBadRequest"
  using bodies_distinct(1) by (simp add: run_defs bodies_not_Nil)

text \<open>
  Where \<open>dec.More()\<close> is false before the end of the body, as at the closing bracket
  of the 14 bytes \<open>{"event":"a"}]\<close>, the loop ends as at the end of the body: the
  events decoded so far are consumed and the answer is 202.
\<close>

lemma stray_closer_accepted:
  "passesValidation (exRequest ''POST'' ''application/json'' [] 14 None
       [Decoded ''a'', NoMore]) \<and>
   respStatus (handleReq exConfig (exCollaborators None)
     (exRequest ''POST'' ''application/json'' [] 14 None [Decoded ''a'', NoMore]))
     = Some StatusAccepted \<and>
   writes (handleReq exConfig (exCollaborators None)
     (exRequest ''POST'' ''application/json'' [] 14 None [Decoded ''a'', NoMore]))
     = [okRespBody] \<and>
   consumed (handleReq exConfig (exCollaborators None)
     (exRequest ''POST'' ''application/json'' [] 14 None [Decoded ''a'', NoMore]))
     = [[\<lparr>Resource = None, InstrumentationLibraryLogs = [\<lparr>Logs = [''a'']\<rparr>]\<rparr>]]"
  by (simp add: run_defs)

text \<open>The plain request with no body (claim C4).\<close>

theorem empty_body_ok_witness:
  "passesValidation (exRequest ''POST'' ''application/json'' [] 0 None []) \<and>
   gzipReaderOK (exRequest ''POST'' ''application/json'' [] 0 None []) \<and>
   ContentLength (exRequest ''POST'' ''application/json'' [] 0 None []) = 0 \<and>
   respStatus (handleReq exConfig (exCollaborators None)
     (exRequest ''POST'' ''application/json'' [] 0 None [])) = Some StatusOK \<and>
   writes (handleReq exConfig (exCollaborators None)
     (exRequest ''POST'' ''application/json'' [] 0 None [])) = [okRespBody] \<and>
   classified (handleReq exConfig (exCollaborators None)
     (exRequest ''POST'' ''application/json'' [] 0 None [])) = 0 \<and>
   consumed (handleReq exConfig (exCollaborators None)
     (exRequest ''POST'' ''application/json'' [] 0 None [])) = []"
proof -
  let ?req = "exRequest ''POST'' ''application/json'' [] 0 None []"
  have v: "passesValidation ?req" by (simp add: run_defs)
  have g: "gzipReaderOK ?req" by (simp add: run_defs)
  have l: "ContentLength ?req = 0" by (simp add: run_defs)
  from empty_body_ok[OF v g l, of exConfig "exCollaborators None"] v g l
  show ?thesis by simp
qed

text \<open>
  Claim C4 as it is written fails for the gzip encoding: the gzip reader is made before
  the length is looked at, and on a body of length zero \<open>gzip.NewReader\<close> returns the
  end of file error.
\<close>

theorem empty_gzip_body_counterexample:
  "passesValidation (exRequest ''POST'' ''application/json'' ''gzip'' 0 (Some ''EOF'') []) \<and>
   ContentLength (exRequest ''POST'' ''application/json'' ''gzip'' 0 (Some ''EOF'') []) = 0 \<and>
   respStatus (handleReq exConfig (exCollaborators None)
     (exRequest ''POST'' ''application/json'' ''gzip'' 0 (Some ''EOF'') []))
     = Some StatusBadRequest \<and>
   StatusBadRequest \<noteq> StatusOK \<and>
   writes (handleReq exConfig (exCollaborators None)
     (exRequest ''POST'' ''application/json'' ''gzip'' 0 (Some ''EOF'') []))
     = [errGzipReaderRespBody] \<and>
   errGzipReaderRespBody \<noteq> okRespBody"
  using bodies_distinct(4) by (simp add: run_defs bodies_not_Nil)

text \<open>Three requests, one for each test of claim C5.\<close>

theorem validation_order_witness:
  "respStatus (handleReq exConfig (exCollaborators None)
     (exRequest ''GET'' ''text/plain'' ''deflate'' 40 None [Decoded ''a'']))
     = Some StatusBadRequest \<and>
   writes (handleReq exConfig (exCollaborators None)
     (exRequest ''GET'' ''text/plain'' ''deflate'' 40 None [Decoded ''a'']))
     = [invalidMethodRespBody] \<and>
   respStatus (handleReq exConfig (exCollaborators None)
     (exRequest ''POST'' ''text/plain'' ''deflate'' 40 None [Decoded ''a'']))
     = Some StatusUnsupportedMediaType \<and>
   writes (handleReq exConfig (exCollaborators None)
     (exRequest ''POST'' ''text/plain'' ''deflate'' 40 None [Decoded ''a'']))
     = [invalidContentRespBody] \<and>
   bodyReads (handleReq exConfig (exCollaborators None)
     (exRequest ''POST'' ''text/plain'' ''deflate'' 40 None [Decoded ''a''])) = 0 \<and>
   respStatus (handleReq exConfig (exCollaborators None)
     (exRequest ''POST'' ''application/json'' ''deflate'' 40 None [Decoded ''a'']))
     = Some StatusUnsupportedMediaType \<and>
   writes (handleReq exConfig (exCollaborators None)
     (exRequest ''POST'' ''application/json'' ''deflate'' 40 None [Decoded ''a'']))
     = [invalidEncodingRespBody]"
proof -
  let ?c = "exCollaborators None"
  let ?r1 = "exRequest ''GET'' ''text/plain'' ''deflate'' 40 None [Decoded ''a'']"
  let ?r2 = "exRequest ''POST'' ''text/plain'' ''deflate'' 40 None [Decoded ''a'']"
  let ?r3 = "exRequest ''POST'' ''application/json'' ''deflate'' 40 None [Decoded ''a'']"
  have m1: "Method ?r1 \<noteq> MethodPost" by (simp add: run_defs)
  have m2: "Method ?r2 = MethodPost \<and> Header ?r2 httpContentTypeHeader \<noteq> jsonContentType"
    by (simp add: run_defs)
  have m3: "Method ?r3 = MethodPost \<and> Header ?r3 httpContentTypeHeader = jsonContentType \<and>
    Header ?r3 httpContentEncodingHeader \<noteq> [] \<and>
    Header ?r3 httpContentEncodingHeader \<noteq> gzipEncoding"
    by (simp add: run_defs)
  from validation_order[of ?r1 exConfig ?c] m1
  have a: "respStatus (handleReq exConfig ?c ?r1) = Some StatusBadRequest \<and>
      writes (handleReq exConfig ?c ?r1) = [invalidMethodRespBody]" by blast
  from validation_order[of ?r2 exConfig ?c] m2
  have b: "respStatus (handleReq exConfig ?c ?r2) = Some StatusUnsupportedMediaType \<and>
      writes (handleReq exConfig ?c ?r2) = [invalidContentRespBody] \<and>
      bodyReads (handleReq exConfig ?c ?r2) = 0" by blast
  from validation_order[of ?r3 exConfig ?c] m3
  have c: "respStatus (handleReq exConfig ?c ?r3) = Some StatusUnsupportedMediaType \<and>
      writes (handleReq exConfig ?c ?r3) = [invalidEncodingRespBody]" by blast
  from a b c show ?thesis by simp
qed

text \<open>
  Claim C6: when the consumer returns an error for the batch, the handler answers with
  status 500 and the internal server error body, does not call the consumer again, and
  the span's status code is set to internal. At the request with two log events and a
  failing consumer the first three hold. The span's status does not: line 246 calls
  \<open>EndMetricsReceiveOp\<close> with the error, which sets unknown and ends the span, and
  only then \<open>failRequest\<close> sets internal, on a span that has ended. The status set is
  unknown, then internal; the span is exported with unknown.
\<close>

theorem consumer_failure_span_status:
  "consumed (handleReq exConfig (exCollaborators (Some ''queue full''))
       (exRequest ''POST'' ''application/json'' [] 40 None [Decoded ''a'', Decoded ''b'']))
     = [[\<lparr>Resource = None, InstrumentationLibraryLogs = [\<lparr>Logs = [''a'', ''b'']\<rparr>]\<rparr>]] \<and>
   ConsumeLogs (exCollaborators (Some ''queue full''))
     [\<lparr>Resource = None, InstrumentationLibraryLogs = [\<lparr>Logs = [''a'', ''b'']\<rparr>]\<rparr>]
     = Some ''queue full'' \<and>
   respStatus (handleReq exConfig (exCollaborators (Some ''queue full''))
       (exRequest ''POST'' ''application/json'' [] 40 None [Decoded ''a'', Decoded ''b'']))
     = Some StatusInternalServerError \<and>
   writes (handleReq exConfig (exCollaborators (Some ''queue full''))
       (exRequest ''POST'' ''application/json'' [] 40 None [Decoded ''a'', Decoded ''b'']))
     = [errNextConsumerRespBody] \<and>
   spanStatuses (handleReq exConfig (exCollaborators (Some ''queue full''))
       (exRequest ''POST'' ''application/json'' [] 40 None [Decoded ''a'', Decoded ''b'']))
     = [StatusCodeUnknown, StatusCodeInternal] \<and>
   exportedStatus (handleReq exConfig (exCollaborators (Some ''queue full''))
       (exRequest ''POST'' ''application/json'' [] 40 None [Decoded ''a'', Decoded ''b'']))
     = Some StatusCodeUnknown"
  by (simp add: run_defs errToStatus_def exportedStatus_def bodies_not_Nil)

text \<open>Two log events and a consumer that accepts them (claim C2).\<close>

theorem batch_shape_witness:
  "Body (exRequest ''POST'' ''application/json'' [] 40 None [Decoded ''a'', Decoded ''b''])
     = map Decoded [''a'', ''b''] \<and>
   \<not> IsMetric (exCollaborators None) ''a'' \<and> \<not> IsMetric (exCollaborators None) ''b'' \<and>
   [\<lparr>Resource = None, InstrumentationLibraryLogs = [\<lparr>Logs = [''a'', ''b'']\<rparr>]\<rparr>]
     \<in> set (consumed (handleReq exConfig (exCollaborators None)
       (exRequest ''POST'' ''application/json'' [] 40 None [Decoded ''a'', Decoded ''b'']))) \<and>
   (\<exists>res logs.
      [\<lparr>Resource = None, InstrumentationLibraryLogs = [\<lparr>Logs = [''a'', ''b'']\<rparr>]\<rparr>]
        = [\<lparr>Resource = res, InstrumentationLibraryLogs = [\<lparr>Logs = logs\<rparr>]\<rparr>] \<and>
      length logs = length [''a'', ''b''] \<and>
      list_all2 (\<lambda>e l. toLogRecord (exCollaborators None) e = Inr l) [''a'', ''b''] logs)"
proof -
  let ?c = "exCollaborators None"
  let ?req = "exRequest ''POST'' ''application/json'' [] 40 None [Decoded ''a'', Decoded ''b'']"
  let ?ld = "[\<lparr>Resource = None, InstrumentationLibraryLogs = [\<lparr>Logs = [''a'', ''b'']\<rparr>]\<rparr>]"
  have b: "Body ?req = map Decoded [''a'', ''b'']" by (simp add: run_defs)
  have n: "\<forall>e\<in>set [''a'', ''b'']. \<not> IsMetric ?c e" by (simp add: run_defs)
  have m: "?ld \<in> set (consumed (handleReq exConfig ?c ?req))" by (simp add: run_defs)
  from batch_shape[OF b n m] b n m show ?thesis by simp
qed

text \<open>A request of unknown length with an empty body (claim C10).\<close>

theorem empty_stream_consumed_witness:
  "passesValidation (exRequest ''POST'' ''application/json'' [] (- 1) None []) \<and>
   gzipReaderOK (exRequest ''POST'' ''application/json'' [] (- 1) None []) \<and>
   ContentLength (exRequest ''POST'' ''application/json'' [] (- 1) None []) \<noteq> 0 \<and>
   Body (exRequest ''POST'' ''application/json'' [] (- 1) None []) = [] \<and>
   ConsumeLogs (exCollaborators None) (assembleLogs exConfig (exCollaborators None)
     (exRequest ''POST'' ''application/json'' [] (- 1) None []) []) = None \<and>
   consumed (handleReq exConfig (exCollaborators None)
     (exRequest ''POST'' ''application/json'' [] (- 1) None []))
     = [[\<lparr>Resource = None, InstrumentationLibraryLogs = [\<lparr>Logs = []\<rparr>]\<rparr>]] \<and>
   respStatus (handleReq exConfig (exCollaborators None)
     (exRequest ''POST'' ''application/json'' [] (- 1) None [])) = Some StatusAccepted \<and>
   writes (handleReq exConfig (exCollaborators None)
     (exRequest ''POST'' ''application/json'' [] (- 1) None [])) = [okRespBody]"
proof -
  let ?c = "exCollaborators None"
  let ?req = "exRequest ''POST'' ''application/json'' [] (- 1) None []"
  have v: "passesValidation ?req" by (simp add: run_defs)
  have g: "gzipReaderOK ?req" by (simp add: run_defs)
  have l: "ContentLength ?req \<noteq> 0" by (simp add: run_defs)
  have b: "Body ?req = []" by (simp add: run_defs)
  have k: "ConsumeLogs ?c (assembleLogs exConfig ?c ?req []) = None" by (simp add: run_defs)
  have a: "assembleLogs exConfig ?c ?req []
     = [\<lparr>Resource = None, InstrumentationLibraryLogs = [\<lparr>Logs = []\<rparr>]\<rparr>]"
    by (simp add: run_defs)
  from empty_stream_consumed[OF v g l b, of exConfig ?c] k a v g l b
  show ?thesis by simp
qed

text \<open>
  Claim C10 as it is written fails for the gzip encoding: a request of unknown length
  whose body is empty passes the three tests, and \<open>gzip.NewReader\<close> fails on it.
\<close>

theorem empty_gzip_stream_counterexample:
  "passesValidation (exRequest ''POST'' ''application/json'' ''gzip'' (- 1) (Some ''EOF'') []) \<and>
   ContentLength (exRequest ''POST'' ''application/json'' ''gzip'' (- 1) (Some ''EOF'') []) \<noteq> 0 \<and>
   Body (exRequest ''POST'' ''application/json'' ''gzip'' (- 1) (Some ''EOF'') []) = [] \<and>
   ConsumeLogs (exCollaborators None) [] = None \<and>
   consumed (handleReq exConfig (exCollaborators None)
     (exRequest ''POST'' ''application/json'' ''gzip'' (- 1) (Some ''EOF'') [])) = [] \<and>
   respStatus (handleReq exConfig (exCollaborators None)
     (exRequest ''POST'' ''application/json'' ''gzip'' (- 1) (Some ''EOF'') []))
     = Some StatusBadRequest \<and>
   StatusBadRequest \<noteq> StatusAccepted"
  by (simp add: run_defs bodies_not_Nil)

subsection \<open>Response writes and span completions\<close>

lemma decodeEvents_None_writes:
  "decodeEvents c body n evs = (effs, None) \<Longrightarrow> length (writes effs) = 1"
  by (induction c body n evs arbitrary: effs rule: decodeEvents.induct)
     (auto simp: failRequest_observe bodies_not_Nil split: if_splits prod.splits)

lemma consumeEvents_writes: "length (writes (consumeEvents cfg c req n es)) = 1"
  by (simp add: consumeEvents_def Let_def failRequest_observe bodies_not_Nil
      split: sum.splits option.splits)

lemma exactly_one_write: "length (writes (handleReq cfg c req)) = 1"
proof (cases "passesValidation req \<and> gzipReaderOK req")
  case False
  then show ?thesis
    by (auto simp: handleReq_def readBody_def passesValidation_def gzipReaderOK_def Let_def
        gzipEncoding_def failRequest_observe observe_append bodies_not_Nil
        split: option.splits if_splits)
next
  case True
  then obtain pre where pre: "writes pre = []"
    and h: "handleReq cfg c req = pre @
             (if ContentLength req = 0 then [Write okRespBody]
              else (case decodeEvents c (Body req) 0 [] of
                      (effs, None) \<Rightarrow> effs
                    | (effs, Some (messagesReceived, events)) \<Rightarrow>
                        effs @ consumeEvents cfg c req messagesReceived events))"
    using handleReq_valid[of req cfg c] by auto
  show ?thesis
  proof (cases "ContentLength req = 0")
    case True
    with h pre show ?thesis by (simp add: observe_append)
  next
    case False
    obtain effs r where d: "decodeEvents c (Body req) 0 [] = (effs, r)"
      by (cases "decodeEvents c (Body req) 0 []")
    show ?thesis
    proof (cases r)
      case None
      with d h pre False decodeEvents_None_writes[of c "Body req" 0 "[]" effs]
      show ?thesis by (simp add: observe_append)
    next
      case (Some p)
      obtain k es where p: "p = (k, es)" by (cases p)
      from decodeEvents_Some[of c "Body req" 0 "[]" effs k es] d Some p
      have "writes effs = []" by simp
      with d h pre False Some p consumeEvents_writes[of cfg c req k es]
      show ?thesis by (simp add: observe_append)
    qed
  qed
qed

text \<open>
  Claim C8: every request has exactly one terminal response write and exactly one span
  completion, and never a success body together with a failure body. The handler writes
  one body for every request (\<open>exactly_one_write\<close>). It does not complete one span for
  every request: for the valid request of declared length zero it writes the OK body
  and returns, with no call that ends the span that \<open>StartMetricsReceiveOp\<close> began;
  and when the consumer fails, \<open>EndMetricsReceiveOp\<close> and \<open>failRequest\<close> both end
  the one span, two calls for one completion.
\<close>

theorem empty_body_no_span_completion:
  "passesValidation (exRequest ''POST'' ''application/json'' [] 0 None []) \<and>
   handleReq exConfig (exCollaborators None)
     (exRequest ''POST'' ''application/json'' [] 0 None [])
     = [ReceiverContext ''splunk_hec'' ''http'' ''splunk_hec'',
        StartMetricsReceiveOp ''splunk_hec'' ''http'',
        Write okRespBody] \<and>
   spanCompletions (handleReq exConfig (exCollaborators None)
     (exRequest ''POST'' ''application/json'' [] 0 None [])) = 0 \<and>
   spanCompletions (handleReq exConfig (exCollaborators (Some ''queue full''))
     (exRequest ''POST'' ''application/json'' [] 40 None [Decoded ''a''])) = 2"
  by (simp add: run_defs)

section \<open>Properties of the conversion of raw values\<close>

lemma conversion_cases:
  "(supported r \<longrightarrow> snd (newValueFromRaw r) = None) \<and>
   (\<not> supported r \<longrightarrow> (\<exists>t. newValueFromRaw r = (VNull, Some (UnsupportedType t))))"
  "(supportedList xs \<longrightarrow> snd (sliceFromRaw xs) = None) \<and>
   (\<not> supportedList xs \<longrightarrow> (\<exists>t. sliceFromRaw xs = ([], Some (UnsupportedType t))))"
  "(supportedMap m \<longrightarrow> snd (mapFromRaw m) = None) \<and>
   (\<not> supportedMap m \<longrightarrow> (\<exists>t. mapFromRaw m = ([], Some (UnsupportedType t))))"
proof (induction r and xs and m rule: newValueFromRaw_sliceFromRaw_mapFromRaw.induct)
  case (21 x xs)
  show ?case
  proof (cases "newValueFromRaw x")
    case (Pair v eo)
    show ?thesis
    proof (cases eo)
      case None
      with Pair have eq: "(v, None) = newValueFromRaw x" by simp
      from 21(2)[OF eq refl] 21(1) Pair None show ?thesis
        by (auto split: prod.splits option.splits)
    next
      case (Some e)
      with Pair 21(1) show ?thesis by (auto split: prod.splits option.splits)
    qed
  qed
next
  case (23 k x m)
  show ?case
  proof (cases "newValueFromRaw x")
    case (Pair v eo)
    show ?thesis
    proof (cases eo)
      case None
      with Pair have eq: "(v, None) = newValueFromRaw x" by simp
      from 23(2)[OF eq refl] 23(1) Pair None show ?thesis
        by (auto split: prod.splits option.splits)
    next
      case (Some e)
      with Pair 23(1) show ?thesis by (auto split: prod.splits option.splits)
    qed
  qed
qed (auto split: prod.splits option.splits)

lemma testValues_supported: "list_all supported testValues"
  by (simp add: testValues_def)

lemma testValues_convert: "list_all (\<lambda>r. snd (newValueFromRaw r) = None) testValues"
  by (simp add: testValues_def)

text \<open>
  Claim C7. The conversion succeeds (no error) for every value of the closed supported
  set, and for every value outside it the result is the unsupported type error together
  with the empty Value, never a partly converted one.
\<close>

theorem newValueFromRaw_total:
  "(supported r \<longrightarrow> (\<exists>v. newValueFromRaw r = (v, None))) \<and>
   (\<not> supported r \<longrightarrow> (\<exists>t. newValueFromRaw r = (VNull, Some (UnsupportedType t))))"
proof (intro conjI impI)
  assume "supported r"
  with conversion_cases(1)[of r] have "snd (newValueFromRaw r) = None" by simp
  then show "\<exists>v. newValueFromRaw r = (v, None)" by (cases "newValueFromRaw r") simp
next
  assume "\<not> supported r"
  with conversion_cases(1)[of r]
  show "\<exists>t. newValueFromRaw r = (VNull, Some (UnsupportedType t))" by simp
qed

text \<open>A supported map, the pointer of the test, and a slice that holds it.\<close>

theorem newValueFromRaw_total_witness:
  "supported (RMap [(''foo'', RSlice [RInt8 12, RUint64 1233])]) \<and>
   newValueFromRaw (RMap [(''foo'', RSlice [RInt8 12, RUint64 1233])])
     = (VMap [(''foo'', VSeq [VInt8 12, VUint64 1233])], None) \<and>
   \<not> supported (ROther ''*azureeventhubreceiver.Config'') \<and>
   newValueFromRaw (ROther ''*azureeventhubreceiver.Config'')
     = (VNull, Some (UnsupportedType ''*azureeventhubreceiver.Config'')) \<and>
   \<not> supported (RSlice [RString ''foo'', ROther ''*azureeventhubreceiver.Config'']) \<and>
   newValueFromRaw (RSlice [RString ''foo'', ROther ''*azureeventhubreceiver.Config''])
     = (VNull, Some (UnsupportedType ''*azureeventhubreceiver.Config''))"
proof -
  let ?a = "RMap [(''foo'', RSlice [RInt8 12, RUint64 1233])]"
  let ?b = "ROther ''*azureeventhubreceiver.Config''"
  let ?c = "RSlice [RString ''foo'', ROther ''*azureeventhubreceiver.Config'']"
  have sa: "supported ?a" by simp
  have sb: "\<not> supported ?b" by simp
  have sc: "\<not> supported ?c" by simp
  from newValueFromRaw_total[of ?a] sa obtain v where "newValueFromRaw ?a = (v, None)"
    by blast
  then have a: "newValueFromRaw ?a = (VMap [(''foo'', VSeq [VInt8 12, VUint64 1233])], None)"
    by simp
  from newValueFromRaw_total[of ?b] sb
  obtain t where "newValueFromRaw ?b = (VNull, Some (UnsupportedType t))" by blast
  then have b: "newValueFromRaw ?b
     = (VNull, Some (UnsupportedType ''*azureeventhubreceiver.Config''))" by simp
  from newValueFromRaw_total[of ?c] sc
  obtain t' where "newValueFromRaw ?c = (VNull, Some (UnsupportedType t'))" by blast
  then have c: "newValueFromRaw ?c
     = (VNull, Some (UnsupportedType ''*azureeventhubreceiver.Config''))" by simp
  from sa sb sc a b c show ?thesis by (intro conjI)
qed

end
